theory Spec2Isabelle
  imports Main
begin

section \<open>The configuration model as oldconfig.py reads it\<close>

text \<open>
  \<^verbatim>\<open>examples/oldconfig.py\<close> walks the menu tree of a Kconfig configuration and prompts
  for every changeable symbol and choice that has no user value yet. The script reads
  attributes of \<^verbatim>\<open>MenuNode\<close>, \<^verbatim>\<open>Symbol\<close> and \<^verbatim>\<open>Choice\<close> objects and changes
  the configuration through \<^verbatim>\<open>Symbol.set_value\<close> only.

  Objects are modelled by references into a store: a \<open>kconf\<close> holds, for every symbol and
  choice reference, a record of the attributes the script reads. The attributes that the
  library computes on demand (\<^verbatim>\<open>visibility\<close>, \<^verbatim>\<open>assignable\<close>, \<^verbatim>\<open>tri_value\<close>,
  \<^verbatim>\<open>str_value\<close>, \<^verbatim>\<open>type\<close>, \<^verbatim>\<open>selection\<close>) are fields of the record: their values in
  the current store. \<^verbatim>\<open>Symbol.set_value\<close> belongs to the library, so it is a parameter
  of every function below: it maps a store, a symbol and a value to the success flag and the
  store after the call, and may change any attribute of any object.
\<close>

type_synonym sym_ref = nat
type_synonym choice_ref = nat

text \<open>
  The type constants of the library; \<open>UNKNOWN\<close> is the type of a symbol without one, and
  \<open>INT'\<close> stands for \<^verbatim>\<open>INT\<close>.
\<close>

datatype sym_type = UNKNOWN | BOOL | TRISTATE | STRING | INT' | HEX

text \<open>
  \<^verbatim>\<open>MenuNode.item\<close> is a \<^verbatim>\<open>Symbol\<close>, a \<^verbatim>\<open>Choice\<close>, or one of the constants
  \<^verbatim>\<open>MENU\<close> and \<^verbatim>\<open>COMMENT\<close>.
\<close>

datatype item = Symbol sym_ref | Choice choice_ref | MENU | COMMENT

text \<open>
  A menu node. \<^verbatim>\<open>prompt\<close> is \<^verbatim>\<open>None\<close> or a pair whose first component is the prompt
  text, the only component the script reads. \<^verbatim>\<open>list\<close> is the first child and
  \<^verbatim>\<open>next\<close> the following sibling, each \<^verbatim>\<open>None\<close> when absent; the selectors are named
  \<open>node_list\<close> and \<open>node_next\<close>.
\<close>

datatype menu_node =
  MenuNode (item: item) (prompt: "string option") (filename: string) (linenr: int)
    (node_list: "menu_node option") (node_next: "menu_node option")

text \<open>
  A value handed to \<^verbatim>\<open>set_value\<close>: one of the integers 0, 1, 2 for bool and tristate
  symbols, a string otherwise.
\<close>

datatype val = Tri nat | Str string

record symbol =
  name :: string
  type :: sym_type
  nodes :: "menu_node list"
  visibility :: nat
  user_value :: "val option"
  assignable :: "nat list"
  tri_value :: nat
  str_value :: string
  choice :: "choice_ref option"

record choice_obj =
  choice_visibility :: nat
  choice_tri_value :: nat
  user_selection :: "sym_ref option"
  selection :: "sym_ref option"
  choice_syms :: "sym_ref list"

record kconf =
  syms :: "sym_ref \<Rightarrow> symbol"
  choices :: "choice_ref \<Rightarrow> choice_obj"

type_synonym set_value = "kconf \<Rightarrow> sym_ref \<Rightarrow> val \<Rightarrow> bool \<times> kconf"

text \<open>
  The exceptions the script can raise and does not catch. \<^verbatim>\<open>input()\<close> raises
  \<^verbatim>\<open>EOFError\<close> at the end of standard input; reading an attribute of \<^verbatim>\<open>None\<close> or of
  an integer raises \<^verbatim>\<open>AttributeError\<close>; \<^verbatim>\<open>[][0]\<close> raises \<^verbatim>\<open>IndexError\<close>;
  \<^verbatim>\<open>None[0]\<close> raises \<^verbatim>\<open>TypeError\<close>.
\<close>

datatype error = EOFError | AttributeError | IndexError | TypeError

text \<open>
  What the script does on the terminal, in order: \<open>Input p\<close> is a call \<^verbatim>\<open>input(p)\<close>,
  which writes the prompt \<open>p\<close> and reads one line; \<open>Print s\<close> is \<^verbatim>\<open>print(s)\<close>;
  \<open>EPrint s\<close> is \<^verbatim>\<open>eprint(s)\<close>, a line on the error stream.
\<close>

datatype event = Input string | Print string | EPrint string

text \<open>
  A run takes the lines still to be read from standard input, the store and the events so
  far. It ends with an uncaught exception, or with the store, the unread lines and the
  events. An exception ends the process before the configuration is written, so nothing is
  kept of the state at that point.
\<close>

type_synonym result = "error + kconf \<times> string list \<times> event list"

section \<open>Strings\<close>

text \<open>The decimal text of an integer, as \<^verbatim>\<open>"{}".format(n)\<close> gives it.\<close>

fun str_nat :: "nat \<Rightarrow> string" where
  "str_nat n =
     (if n < 10 then [''0123456789'' ! n]
      else str_nat (n div 10) @ [''0123456789'' ! (n mod 10)])"

declare str_nat.simps [simp del]

definition str_int :: "int \<Rightarrow> string" where
  "str_int i = (if i < 0 then ''-'' @ str_nat (nat (- i)) else str_nat (nat i))"

text \<open>\<^verbatim>\<open>sep.join(xs)\<close>\<close>

fun join :: "string \<Rightarrow> string list \<Rightarrow> string" where
  "join sep [] = []"
| "join sep [x] = x"
| "join sep (x # y # ys) = x @ sep @ join sep (y # ys)"

text \<open>\<^verbatim>\<open>val.startswith(("0x", "0X"))\<close>\<close>

definition startswith_0x :: "string \<Rightarrow> bool" where
  "startswith_0x v = (take 2 v = ''0x'' \<or> take 2 v = ''0X'')"

text \<open>
  \<^verbatim>\<open>int(s)\<close> of Python 3 on a string of ASCII characters: white space around the
  number is dropped, one sign is allowed, and the digits may be separated by single
  underscores. \<open>None\<close> stands for \<^verbatim>\<open>ValueError\<close>. Python also reads the decimal
  digits and the white space outside ASCII; on such a string \<open>py_int\<close> gives \<open>None\<close>.
\<close>

definition is_space :: "char \<Rightarrow> bool" where
  "is_space c = (c \<in> set [CHR '' '', CHR 0x09, CHR 0x0A, CHR 0x0B, CHR 0x0C, CHR 0x0D,
                           CHR 0x1C, CHR 0x1D, CHR 0x1E, CHR 0x1F])"

definition strip :: "string \<Rightarrow> string" where
  "strip s = rev (dropWhile is_space (rev (dropWhile is_space s)))"

definition digit_val :: "char \<Rightarrow> nat option" where
  "digit_val c =
     map_of [(CHR ''0'', 0), (CHR ''1'', 1), (CHR ''2'', 2), (CHR ''3'', 3), (CHR ''4'', 4),
             (CHR ''5'', 5), (CHR ''6'', 6), (CHR ''7'', 7), (CHR ''8'', 8), (CHR ''9'', 9)] c"

fun parse_digits :: "nat \<Rightarrow> bool \<Rightarrow> string \<Rightarrow> nat option" where
  "parse_digits acc ok [] = (if ok then Some acc else None)"
| "parse_digits acc ok (c # cs) =
     (case digit_val c of
        Some d \<Rightarrow> parse_digits (10 * acc + d) True cs
      | None \<Rightarrow> if c = CHR ''_'' \<and> ok then parse_digits acc False cs else None)"

definition py_int :: "string \<Rightarrow> int option" where
  "py_int s =
     (case strip s of
        [] \<Rightarrow> None
      | c # cs \<Rightarrow>
          if c = CHR ''-'' then map_option (\<lambda>n. - int n) (parse_digits 0 False cs)
          else if c = CHR ''+'' then map_option int (parse_digits 0 False cs)
          else map_option int (parse_digits 0 False (c # cs)))"

section \<open>The helpers of oldconfig.py\<close>

text \<open>
  Modelled from the spec: the table \<^verbatim>\<open>STR_TO_TRI\<close> is imported from the kconfiglib
  module, whose code is not part of the script; it is the fixed case-sensitive table that
  sends \<^verbatim>\<open>n\<close> to 0, \<^verbatim>\<open>m\<close> to 1 and \<^verbatim>\<open>y\<close> to 2.
\<close>

definition STR_TO_TRI :: "string \<Rightarrow> nat option" where
  "STR_TO_TRI = map_of [(''n'', 0), (''m'', 1), (''y'', 2)]"

definition name_and_loc_str :: "symbol \<Rightarrow> string" where
  "name_and_loc_str s =
     name s @ '', defined at '' @
     join '', '' (map (\<lambda>node. filename node @ '':'' @ str_int (linenr node)) (nodes s))"

definition default_value_str :: "symbol \<Rightarrow> string" where
  "default_value_str s =
     (if type s \<in> {BOOL, TRISTATE} then
        join ''/''
          ((if 0 \<in> set (assignable s) then [if tri_value s = 0 then ''N'' else ''n''] else []) @
           (if 1 \<in> set (assignable s) then [if tri_value s = 1 then ''M'' else ''m''] else []) @
           (if 2 \<in> set (assignable s) then [if tri_value s = 2 then ''Y'' else ''y''] else []))
      else str_value s)"

section \<open>The prompt for one menu node\<close>

text \<open>
  The last steps of one round of the symbol loop (lines 195 to 205): the \<^verbatim>\<open>0x\<close> prefix
  for a hex symbol, then \<^verbatim>\<open>set_value\<close>. A bool or tristate symbol reaches this point
  with one of the integers of \<^verbatim>\<open>STR_TO_TRI\<close>, every other symbol with a string.
  \<^verbatim>\<open>startswith\<close> is evaluated only when the type is \<^verbatim>\<open>HEX\<close>; on an integer it would
  raise \<^verbatim>\<open>AttributeError\<close>.
\<close>

fun hex_prefix :: "sym_type \<Rightarrow> val \<Rightarrow> error + val" where
  "hex_prefix HEX (Str v) = Inr (Str (if \<not> startswith_0x v then ''0x'' @ v else v))"
| "hex_prefix HEX (Tri t) = Inl AttributeError"
| "hex_prefix ty v = Inr v"

text \<open>
  The symbol loop (lines 179 to 205), by recursion on the lines of standard input: one
  equation for the end of input, one for a round that reads \<open>line\<close>. \<open>p\<close> is
  \<^verbatim>\<open>node.prompt[0]\<close> and \<open>sr\<close> the symbol.
\<close>

definition sym_prompt :: "string \<Rightarrow> symbol \<Rightarrow> event" where
  "sym_prompt p s =
     Input (p @ '' ('' @ name_and_loc_str s @ '') ['' @ default_value_str s @ ''] '')"

fun sym_loop :: "set_value \<Rightarrow> string \<Rightarrow> sym_ref \<Rightarrow> string list \<Rightarrow> kconf \<Rightarrow> event list \<Rightarrow> result" where
  "sym_loop sv p sr [] k out = Inl EOFError"
| "sym_loop sv p sr (line # rest) k out =
     (let s = syms k sr;
          out1 = out @ [sym_prompt p s];
          v = (if line = [] then str_value s else line)
      in case (if type s \<in> {BOOL, TRISTATE} then map_option Tri (STR_TO_TRI v)
               else Some (Str v)) of
           None \<Rightarrow> sym_loop sv p sr rest k (out1 @ [EPrint ''Invalid tristate value''])
         | Some v1 \<Rightarrow>
             (case hex_prefix (type s) v1 of
                Inl e \<Rightarrow> Inl e
              | Inr v2 \<Rightarrow>
                  (case sv k sr v2 of
                     (True, k') \<Rightarrow> Inr (k', rest, out1)
                   | (False, k') \<Rightarrow> sym_loop sv p sr rest k' out1)))"

text \<open>
  The lines printed for the options of a choice (lines 229 to 236), numbered from \<open>i\<close>.
  The arguments of \<^verbatim>\<open>format\<close> are evaluated before anything is printed for the option.
\<close>

fun show_options :: "kconf \<Rightarrow> choice_ref \<Rightarrow> nat \<Rightarrow> sym_ref list \<Rightarrow> error + event list" where
  "show_options k c i [] = Inr []"
| "show_options k c i (sr # srs) =
     (case nodes (syms k sr) of
        [] \<Rightarrow> Inl IndexError
      | n # ns \<Rightarrow>
          (case prompt n of
             None \<Rightarrow> Inl TypeError
           | Some pt \<Rightarrow>
               (case show_options k c (i + 1) srs of
                  Inl e \<Rightarrow> Inl e
                | Inr evs \<Rightarrow>
                    Inr (Print ((if selection (choices k c) = Some sr then ''>'' else '' '') @
                                '' '' @ str_nat i @ ''. '' @ pt @ '' ('' @ name (syms k sr) @ '')'')
                         # evs))))"

text \<open>
  The choice loop (lines 225 to 257). \<open>p\<close>, \<open>fn\<close> and \<open>ln\<close> are \<^verbatim>\<open>node.prompt[0]\<close>,
  \<^verbatim>\<open>node.filename\<close> and \<^verbatim>\<open>node.linenr\<close>; \<open>options\<close> is computed once, before the
  loop. Every round prints the choice and its options before it reads a line.
\<close>

definition choice_header :: "string \<Rightarrow> string \<Rightarrow> int \<Rightarrow> event" where
  "choice_header p fn ln = Print (p @ '' (defined at '' @ fn @ '':'' @ str_int ln @ '')'')"

definition choice_input :: "sym_ref list \<Rightarrow> event" where
  "choice_input options = Input (''choice[1-'' @ str_nat (length options) @ '']: '')"

fun choice_loop ::
  "set_value \<Rightarrow> string \<Rightarrow> string \<Rightarrow> int \<Rightarrow> choice_ref \<Rightarrow> sym_ref list \<Rightarrow>
   string list \<Rightarrow> kconf \<Rightarrow> event list \<Rightarrow> result" where
  "choice_loop sv p fn ln c options [] k out =
     (case show_options k c 1 options of
        Inl e \<Rightarrow> Inl e
      | Inr evs \<Rightarrow> Inl EOFError)"
| "choice_loop sv p fn ln c options (sel_index # rest) k out =
     (case show_options k c 1 options of
        Inl e \<Rightarrow> Inl e
      | Inr evs \<Rightarrow>
          (let out1 = out @ [choice_header p fn ln] @ evs @ [choice_input options]
           in if sel_index = [] then
                (case selection (choices k c) of
                   None \<Rightarrow> Inl AttributeError
                 | Some sr \<Rightarrow> Inr (snd (sv k sr (Tri 2)), rest, out1))
              else
                (case py_int sel_index of
                   None \<Rightarrow> choice_loop sv p fn ln c options rest k (out1 @ [EPrint ''Bad index''])
                 | Some i \<Rightarrow>
                     if \<not> (1 \<le> i \<and> i \<le> int (length options))
                     then choice_loop sv p fn ln c options rest k (out1 @ [EPrint ''Bad index''])
                     else Inr (snd (sv k (options ! nat (i - 1)) (Tri 2)), rest, out1))))"

text \<open>
  \<^verbatim>\<open>node.item.visibility\<close> (line 154): symbols and choices have the attribute, the
  constants \<^verbatim>\<open>MENU\<close> and \<^verbatim>\<open>COMMENT\<close> are integers and have none.
\<close>

fun item_visibility :: "kconf \<Rightarrow> item \<Rightarrow> error + nat" where
  "item_visibility k (Symbol sr) = Inr (visibility (syms k sr))"
| "item_visibility k (Choice c) = Inr (choice_visibility (choices k c))"
| "item_visibility k MENU = Inl AttributeError"
| "item_visibility k COMMENT = Inl AttributeError"

text \<open>\<^verbatim>\<open>isinstance(node.item, (Symbol, Choice))\<close>\<close>

fun is_symbol_or_choice :: "item \<Rightarrow> bool" where
  "is_symbol_or_choice (Symbol sr) = True"
| "is_symbol_or_choice (Choice c) = True"
| "is_symbol_or_choice MENU = False"
| "is_symbol_or_choice COMMENT = False"

text \<open>The symbol branch (lines 162 to 205) and the choice branch (lines 208 to 257).\<close>

definition oldconfig_symbol ::
  "set_value \<Rightarrow> string \<Rightarrow> sym_ref \<Rightarrow> string list \<Rightarrow> kconf \<Rightarrow> event list \<Rightarrow> result" where
  "oldconfig_symbol sv p sr ins k out =
     (if user_value (syms k sr) \<noteq> None then Inr (k, ins, out)
      else if length (assignable (syms k sr)) = 1 then Inr (k, ins, out)
      else if (case choice (syms k sr) of
                 None \<Rightarrow> False
               | Some c \<Rightarrow> choice_tri_value (choices k c) = 2) then Inr (k, ins, out)
      else sym_loop sv p sr ins k out)"

definition oldconfig_choice ::
  "set_value \<Rightarrow> string \<Rightarrow> string \<Rightarrow> int \<Rightarrow> choice_ref \<Rightarrow> string list \<Rightarrow> kconf \<Rightarrow>
   event list \<Rightarrow> result" where
  "oldconfig_choice sv p fn ln c ins k out =
     (if (case user_selection (choices k c) of
            None \<Rightarrow> False
          | Some u \<Rightarrow> visibility (syms k u) = 2) then Inr (k, ins, out)
      else
        (let options = filter (\<lambda>sr. visibility (syms k sr) = 2) (choice_syms (choices k c))
         in if options = [] then Inr (k, ins, out)
            else choice_loop sv p fn ln c options ins k out))"

definition do_oldconfig_for_node ::
  "set_value \<Rightarrow> menu_node \<Rightarrow> string list \<Rightarrow> kconf \<Rightarrow> event list \<Rightarrow> result" where
  "do_oldconfig_for_node sv node ins k out =
     (if \<not> is_symbol_or_choice (item node) then Inr (k, ins, out)
      else
        (case item_visibility k (item node) of
           Inl e \<Rightarrow> Inl e
         | Inr vis \<Rightarrow>
             if vis = 0 then Inr (k, ins, out)
             else
               (case prompt node of
                  None \<Rightarrow> Inr (k, ins, out)
                | Some p \<Rightarrow>
                    (case item node of
                       Symbol sr \<Rightarrow> oldconfig_symbol sv p sr ins k out
                     | Choice c \<Rightarrow>
                         oldconfig_choice sv p (filename node) (linenr node) c ins k out
                     | _ \<Rightarrow> Inl AttributeError))))"

section \<open>The walk\<close>

text \<open>
  \<^verbatim>\<open>do_oldconfig\<close> (lines 259 to 266). The argument is a node or \<^verbatim>\<open>None\<close>; the
  \<^verbatim>\<open>while\<close> loop over the siblings is the recursion on \<^verbatim>\<open>node.next\<close>. The menu
  nodes form a finite tree; the limit of Python on the depth of recursion is not modelled.
\<close>

fun do_oldconfig ::
  "set_value \<Rightarrow> menu_node option \<Rightarrow> string list \<Rightarrow> kconf \<Rightarrow> event list \<Rightarrow> result" where
  "do_oldconfig sv None ins k out = Inr (k, ins, out)"
| "do_oldconfig sv (Some (MenuNode it pr fn ln chl nxt)) ins k out =
     (case do_oldconfig_for_node sv (MenuNode it pr fn ln chl nxt) ins k out of
        Inl e \<Rightarrow> Inl e
      | Inr (k1, ins1, out1) \<Rightarrow>
          (case (case chl of
                   None \<Rightarrow> Inr (k1, ins1, out1)
                 | Some child \<Rightarrow> do_oldconfig sv (Some child) ins1 k1 out1) of
             Inl e \<Rightarrow> Inl e
           | Inr (k2, ins2, out2) \<Rightarrow> do_oldconfig sv nxt ins2 k2 out2))"

text \<open>
  The order of the walk in the words of the specification: the nodes of a sibling chain in
  order, each node followed by the walk of its child chain, before its next sibling.
\<close>

fun walk_order :: "menu_node option \<Rightarrow> menu_node list" where
  "walk_order None = []"
| "walk_order (Some (MenuNode it pr fn ln chl nxt)) =
     MenuNode it pr fn ln chl nxt # walk_order chl @ walk_order nxt"

text \<open>Prompting for the nodes of a list one after the other, up to the first exception.\<close>

fun visit_all :: "set_value \<Rightarrow> menu_node list \<Rightarrow> string list \<Rightarrow> kconf \<Rightarrow> event list \<Rightarrow> result" where
  "visit_all sv [] ins k out = Inr (k, ins, out)"
| "visit_all sv (node # ns) ins k out =
     (case do_oldconfig_for_node sv node ins k out of
        Inl e \<Rightarrow> Inl e
      | Inr (k1, ins1, out1) \<Rightarrow> visit_all sv ns ins1 k1 out1)"

section \<open>What the script expects of the library\<close>

text \<open>
  Modelled from the spec: \<^verbatim>\<open>Symbol.set_value\<close> is code of the kconfiglib module. The
  assignable set of a bool or tristate symbol holds the levels the user may currently
  choose: the validating setter accepts each of them and records it as the user value of
  the symbol.
\<close>

definition accepts_assignable :: "set_value \<Rightarrow> kconf \<Rightarrow> sym_ref \<Rightarrow> bool" where
  "accepts_assignable sv k sr \<longleftrightarrow>
     (\<forall>t \<in> set (assignable (syms k sr)).
        fst (sv k sr (Tri t)) \<and> user_value (syms (snd (sv k sr (Tri t))) sr) = Some (Tri t))"

text \<open>
  Modelled from the spec: \<^verbatim>\<open>Kconfig.load_config\<close> is code of the kconfiglib module.
  A value read from a saved configuration file goes to the validating setter as it stands
  in the file; nothing is added to it.
\<close>

definition load_saved_value :: "set_value \<Rightarrow> kconf \<Rightarrow> sym_ref \<Rightarrow> string \<Rightarrow> bool \<times> kconf" where
  "load_saved_value sv k sr literal = sv k sr (Str literal)"

section \<open>The sample configuration of the script's header\<close>

text \<open>
  The file \<^verbatim>\<open>OldconfigExample\<close> of the header comment, after loading an empty
  \<^verbatim>\<open>.config\<close>: the symbols \<^verbatim>\<open>MODULES\<close>, \<^verbatim>\<open>BOOL_SYM\<close>, \<^verbatim>\<open>TRISTATE_SYM\<close>,
  \<^verbatim>\<open>STRING_SYM\<close>, \<^verbatim>\<open>INT_SYM\<close>, \<^verbatim>\<open>HEX_SYM\<close> and a choice of \<^verbatim>\<open>CHOICE_A\<close>,
  \<^verbatim>\<open>CHOICE_B\<close> and \<^verbatim>\<open>CHOICE_C\<close> that defaults to \<^verbatim>\<open>CHOICE_B\<close>. The symbols have
  the references 0 to 8 in this order and the choice the reference 0. The sample session
  shows the defaults in its prompts: \<^verbatim>\<open>[n/Y]\<close>, \<^verbatim>\<open>[n/M/y]\<close>, \<^verbatim>\<open>[foo]\<close>, and the empty
  \<^verbatim>\<open>[]\<close> for \<^verbatim>\<open>INT_SYM\<close> and \<^verbatim>\<open>HEX_SYM\<close>, which have no default.
\<close>

definition node_CHOICE_C :: menu_node where
  "node_CHOICE_C = MenuNode (Symbol 8) (Some ''CHOICE_C prompt'') ''Kconfig'' 33 None None"

definition node_CHOICE_B :: menu_node where
  "node_CHOICE_B =
     MenuNode (Symbol 7) (Some ''CHOICE_B prompt'') ''Kconfig'' 30 None (Some node_CHOICE_C)"

definition node_CHOICE_A :: menu_node where
  "node_CHOICE_A =
     MenuNode (Symbol 6) (Some ''CHOICE_A prompt'') ''Kconfig'' 27 None (Some node_CHOICE_B)"

definition node_choice :: menu_node where
  "node_choice =
     MenuNode (Choice 0) (Some ''A choice that defaults to CHOICE_B'') ''Kconfig'' 23
       (Some node_CHOICE_A) None"

definition node_HEX_SYM :: menu_node where
  "node_HEX_SYM =
     MenuNode (Symbol 5) (Some ''HEX_SYM prompt'') ''Kconfig'' 20 None (Some node_choice)"

definition node_INT_SYM :: menu_node where
  "node_INT_SYM =
     MenuNode (Symbol 4) (Some ''INT_SYM prompt'') ''Kconfig'' 17 None (Some node_HEX_SYM)"

definition node_STRING_SYM :: menu_node where
  "node_STRING_SYM =
     MenuNode (Symbol 3) (Some ''STRING_SYM prompt'') ''Kconfig'' 13 None (Some node_INT_SYM)"

definition node_TRISTATE_SYM :: menu_node where
  "node_TRISTATE_SYM =
     MenuNode (Symbol 2) (Some ''TRISTATE_SYM prompt'') ''Kconfig'' 9 None
       (Some node_STRING_SYM)"

definition node_BOOL_SYM :: menu_node where
  "node_BOOL_SYM =
     MenuNode (Symbol 1) (Some ''BOOL_SYM prompt'') ''Kconfig'' 5 None (Some node_TRISTATE_SYM)"

definition node_MODULES :: menu_node where
  "node_MODULES = MenuNode (Symbol 0) None ''Kconfig'' 1 None (Some node_BOOL_SYM)"

definition top_node :: menu_node where
  "top_node =
     MenuNode MENU (Some ''Linux Kernel Configuration'') ''Kconfig'' 1 (Some node_MODULES) None"

definition sample_syms :: "sym_ref \<Rightarrow> symbol" where
  "sample_syms sr =
     (if sr = 1 then
        \<lparr>name = ''BOOL_SYM'', type = BOOL, nodes = [node_BOOL_SYM], visibility = 2,
         user_value = None, assignable = [0, 2], tri_value = 2, str_value = ''y'',
         choice = None\<rparr>
      else if sr = 2 then
        \<lparr>name = ''TRISTATE_SYM'', type = TRISTATE, nodes = [node_TRISTATE_SYM], visibility = 2,
         user_value = None, assignable = [0, 1, 2], tri_value = 1, str_value = ''m'',
         choice = None\<rparr>
      else if sr = 3 then
        \<lparr>name = ''STRING_SYM'', type = STRING, nodes = [node_STRING_SYM], visibility = 2,
         user_value = None, assignable = [], tri_value = 0, str_value = ''foo'',
         choice = None\<rparr>
      else if sr = 4 then
        \<lparr>name = ''INT_SYM'', type = INT', nodes = [node_INT_SYM], visibility = 2,
         user_value = None, assignable = [], tri_value = 0, str_value = [],
         choice = None\<rparr>
      else if sr = 5 then
        \<lparr>name = ''HEX_SYM'', type = HEX, nodes = [node_HEX_SYM], visibility = 2,
         user_value = None, assignable = [], tri_value = 0, str_value = [],
         choice = None\<rparr>
      else if sr = 6 then
        \<lparr>name = ''CHOICE_A'', type = BOOL, nodes = [node_CHOICE_A], visibility = 2,
         user_value = None, assignable = [2], tri_value = 0, str_value = ''n'',
         choice = Some 0\<rparr>
      else if sr = 7 then
        \<lparr>name = ''CHOICE_B'', type = BOOL, nodes = [node_CHOICE_B], visibility = 2,
         user_value = None, assignable = [2], tri_value = 2, str_value = ''y'',
         choice = Some 0\<rparr>
      else if sr = 8 then
        \<lparr>name = ''CHOICE_C'', type = BOOL, nodes = [node_CHOICE_C], visibility = 2,
         user_value = None, assignable = [2], tri_value = 0, str_value = ''n'',
         choice = Some 0\<rparr>
      else
        \<lparr>name = ''MODULES'', type = BOOL, nodes = [node_MODULES], visibility = 0,
         user_value = None, assignable = [], tri_value = 2, str_value = ''y'',
         choice = None\<rparr>)"

definition sample_choice :: choice_obj where
  "sample_choice =
     \<lparr>choice_visibility = 2, choice_tri_value = 2, user_selection = None,
      selection = Some 7, choice_syms = [6, 7, 8]\<rparr>"

definition sample_kconf :: kconf where
  "sample_kconf = \<lparr>syms = sample_syms, choices = (\<lambda>c. sample_choice)\<rparr>"

text \<open>
  Modelled from the spec: \<^verbatim>\<open>Symbol.set_value\<close> is code of the kconfiglib module. The
  validating setter reports success when it accepts the candidate and refuses a candidate
  that is invalid for the declared type of the symbol; the sample session of the header
  shows the refusal of \<^verbatim>\<open>0x123\<close> for \<^verbatim>\<open>INT_SYM\<close>. In this setter for the sample,
  a bool symbol takes the levels 0 and 2, a tristate symbol the levels 0, 1 and 2, a string
  symbol every string, an int symbol a decimal integer and a hex symbol hexadecimal digits
  with or without the prefix \<^verbatim>\<open>0x\<close>. A refused value changes nothing; an accepted
  value becomes the user value and the value of the symbol, and the level 2 for a symbol of
  a choice makes the symbol the user selection and the selection of its choice. The setter
  serves the closed examples only: every other theorem holds for every setter.
\<close>

definition is_hex_digit :: "char \<Rightarrow> bool" where
  "is_hex_digit c = (c \<in> set ''0123456789abcdefABCDEF'')"

fun valid_for_type :: "sym_type \<Rightarrow> val \<Rightarrow> bool" where
  "valid_for_type BOOL (Tri t) = (t = 0 \<or> t = 2)"
| "valid_for_type TRISTATE (Tri t) = (t \<le> 2)"
| "valid_for_type STRING (Str v) = True"
| "valid_for_type INT' (Str v) = (py_int v \<noteq> None)"
| "valid_for_type HEX (Str v) =
     (let ds = (if startswith_0x v then drop 2 v else v)
      in ds \<noteq> [] \<and> list_all is_hex_digit ds)"
| "valid_for_type ty v = False"

definition sample_set_value :: set_value where
  "sample_set_value k sr v =
     (if \<not> valid_for_type (type (syms k sr)) v then (False, k)
      else
        (True,
         k\<lparr>syms := (syms k)
              (sr := (syms k sr)
                 \<lparr>user_value := Some v,
                  tri_value := (case v of Tri t \<Rightarrow> t | Str x \<Rightarrow> tri_value (syms k sr)),
                  str_value := (case v of Tri t \<Rightarrow> [''nmy'' ! t] | Str x \<Rightarrow> x)\<rparr>),
           choices :=
             (case choice (syms k sr) of
                None \<Rightarrow> choices k
              | Some c \<Rightarrow>
                  if v = Tri 2
                  then (choices k)(c := (choices k c)\<lparr>user_selection := Some sr,
                                                     selection := Some sr\<rparr>)
                  else choices k)\<rparr>))"



section \<open>Facts about the loops\<close>



lemma visit_all_append:
  "visit_all sv (xs @ ys) ins k out =
     (case visit_all sv xs ins k out of
        Inl e \<Rightarrow> Inl e
      | Inr (k1, ins1, out1) \<Rightarrow> visit_all sv ys ins1 k1 out1)"
  by (induction xs arbitrary: ins k out) (auto split: sum.splits)

lemma dom_STR_TO_TRI: "dom STR_TO_TRI = {''n'', ''m'', ''y''}"
  by (auto simp: STR_TO_TRI_def split: if_splits)


lemma sample_accepts: "accepts_assignable sample_set_value sample_kconf 2"
  by (simp add: accepts_assignable_def sample_set_value_def sample_kconf_def sample_syms_def)


lemma show_options_Inr_D:
  "show_options k c i options = Inr evs \<Longrightarrow> sr \<in> set options \<Longrightarrow>
   nodes (syms k sr) \<noteq> [] \<and> prompt (hd (nodes (syms k sr))) \<noteq> None"
  by (induction options arbitrary: i evs) (auto split: list.splits option.splits sum.splits)

lemma show_options_Inr_I:
  "\<forall>sr \<in> set options. nodes (syms k sr) \<noteq> [] \<and> prompt (hd (nodes (syms k sr))) \<noteq> None \<Longrightarrow>
   \<exists>evs. show_options k c i options = Inr evs"
proof (induction options arbitrary: i)
  case Nil
  then show ?case by simp
next
  case (Cons sr srs)
  then obtain evs where "show_options k c (i + 1) srs = Inr evs"
    by fastforce
  moreover from Cons.prems obtain n ns pt where "nodes (syms k sr) = n # ns" "prompt n = Some pt"
    by (cases "nodes (syms k sr)") auto
  ultimately show ?case by simp
qed

lemma show_options_ok:
  "(\<exists>evs. show_options k c i options = Inr evs) \<longleftrightarrow>
   (\<forall>sr \<in> set options. nodes (syms k sr) \<noteq> [] \<and> prompt (hd (nodes (syms k sr))) \<noteq> None)"
  using show_options_Inr_D show_options_Inr_I by blast






lemma sym_loop_consumes:
  "sym_loop sv p sr ins k out = Inr (k', ins', out') \<Longrightarrow> length ins' < length ins"
proof (induction ins arbitrary: k out)
  case Nil
  then show ?case by simp
next
  case (Cons line rest)
  then show ?case
    by (fastforce simp: Let_def split: option.splits sum.splits prod.splits bool.splits if_splits)
qed






lemma do_oldconfig_visit_all:
  "do_oldconfig sv node ins k out = visit_all sv (walk_order node) ins k out"
proof (induction sv node ins k out rule: do_oldconfig.induct)
  case (1 sv ins k out)
  then show ?case by simp
next
  case (2 sv it pr fn ln chl nxt ins k out)
  show ?case
  proof (cases "do_oldconfig_for_node sv (MenuNode it pr fn ln chl nxt) ins k out")
    case (Inl e)
    then show ?thesis by simp
  next
    case (Inr r)
    obtain k1 ins1 out1 where r: "r = (k1, ins1, out1)" by (cases r) auto
    show ?thesis
    proof (cases chl)
      case None
      with Inr r 2 show ?thesis by (simp split: sum.splits)
    next
      case (Some child)
      with Inr r 2 show ?thesis
        by (auto simp: visit_all_append split: sum.splits)
    qed
  qed
qed


section \<open>The skip conditions\<close>

text \<open>
  Claim C1. For every menu node, \<^verbatim>\<open>do_oldconfig_for_node\<close> returns without a prompt
  and without a change (same store, no line read, no event) whenever one of the skip
  conditions holds: (1) the item is neither a symbol nor a choice; (2) the visibility of
  the item is 0; (3) the node has no prompt; and for a symbol (4) it has a user value,
  (5) its assignable set has one member, (6) it belongs to a choice whose tri-state value
  is 2. The conditions are tested in this order in \<open>do_oldconfig_for_node\<close> and
  \<open>oldconfig_symbol\<close>; condition (1) comes before the read of the visibility, which
  raises for an item that is neither a symbol nor a choice.
\<close>

theorem do_oldconfig_for_node_skips:
  assumes "\<not> is_symbol_or_choice (item node)
           \<or> item_visibility k (item node) = Inr 0
           \<or> prompt node = None
           \<or> (\<exists>sr. item node = Symbol sr \<and>
                  (user_value (syms k sr) \<noteq> None
                   \<or> length (assignable (syms k sr)) = 1
                   \<or> (\<exists>c. choice (syms k sr) = Some c \<and> choice_tri_value (choices k c) = 2)))"
  shows "do_oldconfig_for_node sv node ins k out = Inr (k, ins, out)"
  using assms
  by (cases "item node")
     (auto simp: do_oldconfig_for_node_def oldconfig_symbol_def split: option.splits)

theorem do_oldconfig_for_node_skips_witness:
  "(\<exists>c. choice (syms sample_kconf 6) = Some c \<and> choice_tri_value (choices sample_kconf c) = 2)
   \<and> do_oldconfig_for_node sample_set_value node_CHOICE_A [''y''] sample_kconf [] =
       Inr (sample_kconf, [''y''], [])"
proof -
  have h: "choice (syms sample_kconf 6) = Some 0 \<and> choice_tri_value (choices sample_kconf 0) = 2"
    by (simp add: sample_kconf_def sample_syms_def sample_choice_def)
  have i: "item node_CHOICE_A = Symbol 6"
    by (simp add: node_CHOICE_A_def)
  show ?thesis
    using h i
      do_oldconfig_for_node_skips [of node_CHOICE_A sample_kconf sample_set_value "[''y'']" "[]"]
    by blast
qed

section \<open>The order of the walk\<close>

text \<open>
  Claim C5. \<^verbatim>\<open>do_oldconfig(node)\<close>, given the first node of a sibling chain, prompts
  for the nodes in the order of \<open>walk_order\<close>: every node of the chain in order, the child
  chain of a node before the next sibling of the node. The walk ends when the node
  reference is \<^verbatim>\<open>None\<close>, where it does nothing. \<open>do_oldconfig\<close> is a total function, so
  the walk of a tree always ends, with the first uncaught exception or with the final
  state.
\<close>

theorem do_oldconfig_walk_order:
  "do_oldconfig sv node ins k out = visit_all sv (walk_order node) ins k out
   \<and> do_oldconfig sv None ins k out = Inr (k, ins, out)"
  by (simp add: do_oldconfig_visit_all)

section \<open>The symbol loop\<close>

text \<open>
  Claim C2. In the symbol loop of a bool or tristate symbol, a line that is not blank is
  looked up in the case-sensitive table \<^verbatim>\<open>STR_TO_TRI\<close>, whose keys are \<^verbatim>\<open>n\<close>,
  \<^verbatim>\<open>m\<close> and \<^verbatim>\<open>y\<close> with the levels 0, 1 and 2. A line that is not a key is answered
  with \<^verbatim>\<open>Invalid tristate value\<close> and the loop goes on with the next line in the same
  store. A line that is a key of a currently assignable level ends the loop in that round:
  the setter is called with exactly that level, and, as it accepts assignable levels, the
  level is the user value of the symbol afterwards.
\<close>

theorem sym_loop_tristate_input:
  assumes "type (syms k sr) \<in> {BOOL, TRISTATE}" and "line \<noteq> []"
  shows "(STR_TO_TRI line = None \<longrightarrow>
            sym_loop sv p sr (line # rest) k out =
            sym_loop sv p sr rest k
              (out @ [sym_prompt p (syms k sr), EPrint ''Invalid tristate value'']))
         \<and> (\<forall>t. STR_TO_TRI line = Some t \<and> t \<in> set (assignable (syms k sr))
                  \<and> accepts_assignable sv k sr \<longrightarrow>
                sym_loop sv p sr (line # rest) k out =
                  Inr (snd (sv k sr (Tri t)), rest, out @ [sym_prompt p (syms k sr)])
                \<and> user_value (syms (snd (sv k sr (Tri t))) sr) = Some (Tri t))
         \<and> dom STR_TO_TRI = {''n'', ''m'', ''y''}
         \<and> STR_TO_TRI ''n'' = Some 0 \<and> STR_TO_TRI ''m'' = Some 1 \<and> STR_TO_TRI ''y'' = Some 2"
proof (intro conjI impI allI)
  assume "STR_TO_TRI line = None"
  with assms show "sym_loop sv p sr (line # rest) k out =
            sym_loop sv p sr rest k
              (out @ [sym_prompt p (syms k sr), EPrint ''Invalid tristate value''])"
    by (auto simp: Let_def)
next
  fix t
  assume h: "STR_TO_TRI line = Some t \<and> t \<in> set (assignable (syms k sr))
                  \<and> accepts_assignable sv k sr"
  then have acc: "fst (sv k sr (Tri t))"
    and uv: "user_value (syms (snd (sv k sr (Tri t))) sr) = Some (Tri t)"
    by (auto simp: accepts_assignable_def)
  from uv show "user_value (syms (snd (sv k sr (Tri t))) sr) = Some (Tri t)" .
  from assms h acc show "sym_loop sv p sr (line # rest) k out =
                  Inr (snd (sv k sr (Tri t)), rest, out @ [sym_prompt p (syms k sr)])"
    by (cases "sv k sr (Tri t)") (auto simp: Let_def)
qed (simp_all add: dom_STR_TO_TRI, simp_all add: STR_TO_TRI_def)


theorem sym_loop_tristate_input_witness:
  "type (syms sample_kconf 2) = TRISTATE
   \<and> STR_TO_TRI ''foo'' = None
   \<and> sym_loop sample_set_value ''TRISTATE_SYM prompt'' 2 [''foo'', ''m''] sample_kconf [] =
       Inr (snd (sample_set_value sample_kconf 2 (Tri 1)), [],
            [sym_prompt ''TRISTATE_SYM prompt'' (syms sample_kconf 2),
             EPrint ''Invalid tristate value'',
             sym_prompt ''TRISTATE_SYM prompt'' (syms sample_kconf 2)])
   \<and> user_value (syms (snd (sample_set_value sample_kconf 2 (Tri 1))) 2) = Some (Tri 1)"
proof -
  have ty: "type (syms sample_kconf 2) \<in> {BOOL, TRISTATE}"
    and ty': "type (syms sample_kconf 2) = TRISTATE"
    and asg: "1 \<in> set (assignable (syms sample_kconf 2))"
    by (simp_all add: sample_kconf_def sample_syms_def)
  have foo: "STR_TO_TRI ''foo'' = None" and m: "STR_TO_TRI ''m'' = Some 1"
    by (simp_all add: STR_TO_TRI_def)
  have ne: "''foo'' \<noteq> []" "''m'' \<noteq> []" by simp_all
  note a = sym_loop_tristate_input [OF ty ne(1), of sample_set_value "''TRISTATE_SYM prompt''" "[''m'']" "[]"]
  note b = sym_loop_tristate_input [OF ty ne(2), of sample_set_value "''TRISTATE_SYM prompt''" "[]"
      "[sym_prompt ''TRISTATE_SYM prompt'' (syms sample_kconf 2), EPrint ''Invalid tristate value'']"]
  from a foo have 1: "sym_loop sample_set_value ''TRISTATE_SYM prompt'' 2 [''foo'', ''m''] sample_kconf [] =
      sym_loop sample_set_value ''TRISTATE_SYM prompt'' 2 [''m''] sample_kconf
        [sym_prompt ''TRISTATE_SYM prompt'' (syms sample_kconf 2), EPrint ''Invalid tristate value'']"
    by simp
  from b m asg sample_accepts have 2: "sym_loop sample_set_value ''TRISTATE_SYM prompt'' 2 [''m''] sample_kconf
        [sym_prompt ''TRISTATE_SYM prompt'' (syms sample_kconf 2), EPrint ''Invalid tristate value''] =
       Inr (snd (sample_set_value sample_kconf 2 (Tri 1)), [],
            [sym_prompt ''TRISTATE_SYM prompt'' (syms sample_kconf 2),
             EPrint ''Invalid tristate value'',
             sym_prompt ''TRISTATE_SYM prompt'' (syms sample_kconf 2)])
       \<and> user_value (syms (snd (sample_set_value sample_kconf 2 (Tri 1))) 2) = Some (Tri 1)"
    by simp
  from 2 have 3: "user_value (syms (snd (sample_set_value sample_kconf 2 (Tri 1))) 2) = Some (Tri 1)"
    by (rule conjunct2)
  from 1 2 ty' foo 3 show ?thesis by (simp only: simp_thms)
qed

text \<open>
  Claim C4. In the symbol loop of a hex symbol, the candidate (the line read, or the
  current value when the line is blank) gets the prefix \<^verbatim>\<open>0x\<close> unless it starts with
  \<^verbatim>\<open>0x\<close> or \<^verbatim>\<open>0X\<close>, and only then goes to the setter; so the line \<^verbatim>\<open>123\<close> does
  what the line \<^verbatim>\<open>0x123\<close> does. A value loaded from a saved configuration file goes to
  the setter as it stands.
\<close>

theorem sym_loop_hex_prefix:
  assumes "type (syms k sr) = HEX"
  shows "sym_loop sv p sr (line # rest) k out =
           (let v = (if line = [] then str_value (syms k sr) else line);
                v' = (if startswith_0x v then v else ''0x'' @ v)
            in case sv k sr (Str v') of
                 (True, k') \<Rightarrow> Inr (k', rest, out @ [sym_prompt p (syms k sr)])
               | (False, k') \<Rightarrow> sym_loop sv p sr rest k' (out @ [sym_prompt p (syms k sr)]))
         \<and> sym_loop sv p sr (''123'' # rest) k out = sym_loop sv p sr (''0x123'' # rest) k out
         \<and> load_saved_value sv k sr literal = sv k sr (Str literal)"
  using assms
  by (auto simp: Let_def startswith_0x_def load_saved_value_def split: prod.splits bool.splits)

theorem sym_loop_hex_prefix_witness:
  "type (syms sample_kconf 5) = HEX
   \<and> sym_loop sample_set_value ''HEX_SYM prompt'' 5 [''123''] sample_kconf [] =
       sym_loop sample_set_value ''HEX_SYM prompt'' 5 [''0x123''] sample_kconf []
   \<and> sym_loop sample_set_value ''HEX_SYM prompt'' 5 [''123''] sample_kconf [] =
       Inr (snd (sample_set_value sample_kconf 5 (Str ''0x123'')), [],
            [sym_prompt ''HEX_SYM prompt'' (syms sample_kconf 5)])
   \<and> load_saved_value sample_set_value sample_kconf 5 ''123'' =
       sample_set_value sample_kconf 5 (Str ''123'')"
proof -
  have ty: "type (syms sample_kconf 5) = HEX"
    by (simp add: sample_kconf_def sample_syms_def)
  have acc: "fst (sample_set_value sample_kconf 5 (Str ''0x123''))"
    by (simp add: sample_set_value_def sample_kconf_def sample_syms_def startswith_0x_def
        is_hex_digit_def)
  have pre: "\<not> startswith_0x ''123''"
    by (simp add: startswith_0x_def)
  note a = sym_loop_hex_prefix [OF ty, of sample_set_value "''HEX_SYM prompt''" "''123''" "[]" "[]" "''123''"]
  from a have 1: "sym_loop sample_set_value ''HEX_SYM prompt'' 5 [''123''] sample_kconf [] =
       sym_loop sample_set_value ''HEX_SYM prompt'' 5 [''0x123''] sample_kconf []"
    and 3: "load_saved_value sample_set_value sample_kconf 5 ''123'' =
       sample_set_value sample_kconf 5 (Str ''123'')"
    by blast+
  from a have "sym_loop sample_set_value ''HEX_SYM prompt'' 5 [''123''] sample_kconf [] =
           (let v = (if ''123'' = [] then str_value (syms sample_kconf 5) else ''123'');
                v' = (if startswith_0x v then v else ''0x'' @ v)
            in case sample_set_value sample_kconf 5 (Str v') of
                 (True, k') \<Rightarrow> Inr (k', [], [] @ [sym_prompt ''HEX_SYM prompt'' (syms sample_kconf 5)])
               | (False, k') \<Rightarrow> sym_loop sample_set_value ''HEX_SYM prompt'' 5 [] k' ([] @ [sym_prompt ''HEX_SYM prompt'' (syms sample_kconf 5)]))"
    by (rule conjunct1)
  with acc pre have 2: "sym_loop sample_set_value ''HEX_SYM prompt'' 5 [''123''] sample_kconf [] =
       Inr (snd (sample_set_value sample_kconf 5 (Str ''0x123'')), [],
            [sym_prompt ''HEX_SYM prompt'' (syms sample_kconf 5)])"
    by (cases "sample_set_value sample_kconf 5 (Str ''0x123'')") (simp add: Let_def)
  from ty 1 2 3 show ?thesis by (simp only: simp_thms)
qed

section \<open>The choice loop\<close>

text \<open>
  Claim C10. Every round of the choice loop prints the options first and reads, without
  a guard, the prompt of the first node of each option. The options can be printed if and
  only if every option has a node and its first node has a prompt; otherwise the
  exception raised by the display (\<^verbatim>\<open>IndexError\<close> or \<^verbatim>\<open>TypeError\<close>) leaves the loop
  uncaught, whatever the input is.
\<close>

theorem choice_display_needs_prompts:
  "((\<exists>evs. show_options k c 1 options = Inr evs) \<longleftrightarrow>
    (\<forall>sr \<in> set options.
       nodes (syms k sr) \<noteq> [] \<and> prompt (hd (nodes (syms k sr))) \<noteq> None))
   \<and> (\<forall>e. show_options k c 1 options = Inl e \<longrightarrow>
          choice_loop sv p fn ln c options ins k out = Inl e)"
proof
  show "(\<exists>evs. show_options k c 1 options = Inr evs) \<longleftrightarrow>
    (\<forall>sr \<in> set options.
       nodes (syms k sr) \<noteq> [] \<and> prompt (hd (nodes (syms k sr))) \<noteq> None)"
    by (rule show_options_ok)
  show "\<forall>e. show_options k c 1 options = Inl e \<longrightarrow>
          choice_loop sv p fn ln c options ins k out = Inl e"
    by (cases ins) auto
qed

theorem choice_display_needs_prompts_witness:
  "nodes (syms sample_kconf 6) \<noteq> [] \<and> prompt (hd (nodes (syms sample_kconf 6))) \<noteq> None
   \<and> nodes (syms sample_kconf 7) \<noteq> [] \<and> prompt (hd (nodes (syms sample_kconf 7))) \<noteq> None
   \<and> nodes (syms sample_kconf 8) \<noteq> [] \<and> prompt (hd (nodes (syms sample_kconf 8))) \<noteq> None
   \<and> (\<exists>evs. show_options sample_kconf 0 1 [6, 7, 8] = Inr evs)
   \<and> show_options (sample_kconf\<lparr>syms := (syms sample_kconf)(7 := (syms sample_kconf 7)\<lparr>nodes := []\<rparr>)\<rparr>)
         0 1 [6, 7, 8] = Inl IndexError
   \<and> choice_loop sample_set_value ''A choice'' ''Kconfig'' 23 0 [6, 7, 8] [''2'']
         (sample_kconf\<lparr>syms := (syms sample_kconf)(7 := (syms sample_kconf 7)\<lparr>nodes := []\<rparr>)\<rparr>) [] =
       Inl IndexError"
proof -
  let ?k = "sample_kconf\<lparr>syms := (syms sample_kconf)(7 := (syms sample_kconf 7)\<lparr>nodes := []\<rparr>)\<rparr>"
  have n: "nodes (syms sample_kconf 6) \<noteq> [] \<and> prompt (hd (nodes (syms sample_kconf 6))) \<noteq> None"
    "nodes (syms sample_kconf 7) \<noteq> [] \<and> prompt (hd (nodes (syms sample_kconf 7))) \<noteq> None"
    "nodes (syms sample_kconf 8) \<noteq> [] \<and> prompt (hd (nodes (syms sample_kconf 8))) \<noteq> None"
    by (simp_all add: sample_kconf_def sample_syms_def node_CHOICE_A_def node_CHOICE_B_def
        node_CHOICE_C_def)
  then have all: "\<forall>sr \<in> set [6, 7, 8].
      nodes (syms sample_kconf sr) \<noteq> [] \<and> prompt (hd (nodes (syms sample_kconf sr))) \<noteq> None"
    by simp
  have bad: "show_options ?k 0 1 [6, 7, 8] = Inl IndexError"
    by (simp add: sample_kconf_def sample_syms_def node_CHOICE_A_def)
  from choice_display_needs_prompts [of sample_kconf 0 "[6, 7, 8]"] all
  have 1: "\<exists>evs. show_options sample_kconf 0 1 [6, 7, 8] = Inr evs"
    by blast
  from choice_display_needs_prompts [of ?k 0 "[6, 7, 8]" sample_set_value "''A choice''"
      "''Kconfig''" 23 "[''2'']" "[]"] bad
  have 2: "choice_loop sample_set_value ''A choice'' ''Kconfig'' 23 0 [6, 7, 8] [''2''] ?k [] =
       Inl IndexError"
    by blast
  from n 1 bad 2 show ?thesis by (simp only: simp_thms)
qed





section \<open>Blank input\<close>

text \<open>
  Claim C7, amended. A blank line makes the current textual value of the symbol the
  candidate: for a bool or tristate symbol its level in \<^verbatim>\<open>STR_TO_TRI\<close>, for a hex
  symbol the value with the prefix \<^verbatim>\<open>0x\<close> where it is missing, otherwise the value as
  it is. The loop ends in that round, with the next line unread, exactly when the setter
  accepts the candidate; when the setter refuses it, the loop prompts again.
\<close>

theorem sym_loop_blank_input:
  assumes "(if type (syms k sr) \<in> {BOOL, TRISTATE}
            then map_option Tri (STR_TO_TRI (str_value (syms k sr)))
            else Some (Str (if type (syms k sr) = HEX \<and> \<not> startswith_0x (str_value (syms k sr))
                            then ''0x'' @ str_value (syms k sr)
                            else str_value (syms k sr)))) = Some v"
  shows "(fst (sv k sr v) \<longrightarrow>
            sym_loop sv p sr ([] # rest) k out =
            Inr (snd (sv k sr v), rest, out @ [sym_prompt p (syms k sr)]))
         \<and> (\<not> fst (sv k sr v) \<longrightarrow>
              sym_loop sv p sr ([] # rest) k out =
              sym_loop sv p sr rest (snd (sv k sr v)) (out @ [sym_prompt p (syms k sr)]))
         \<and> ((\<exists>k' out'. sym_loop sv p sr ([] # rest) k out = Inr (k', rest, out')) \<longleftrightarrow>
              fst (sv k sr v))"
proof -
  have eq: "sym_loop sv p sr ([] # rest) k out =
          (case sv k sr v of
             (True, k') \<Rightarrow> Inr (k', rest, out @ [sym_prompt p (syms k sr)])
           | (False, k') \<Rightarrow> sym_loop sv p sr rest k' (out @ [sym_prompt p (syms k sr)]))"
  proof (cases "type (syms k sr) \<in> {BOOL, TRISTATE}")
    case True
    with assms obtain t where t: "STR_TO_TRI (str_value (syms k sr)) = Some t" and v: "v = Tri t"
      by auto
    from True have "hex_prefix (type (syms k sr)) (Tri t) = Inr (Tri t)"
      by auto
    with True t v show ?thesis by (simp add: Let_def)
  next
    case False
    with assms have "hex_prefix (type (syms k sr)) (Str (str_value (syms k sr))) = Inr v"
      by (cases "type (syms k sr)") auto
    with False show ?thesis by (simp add: Let_def)
  qed
  from eq have 1: "fst (sv k sr v) \<longrightarrow>
            sym_loop sv p sr ([] # rest) k out =
            Inr (snd (sv k sr v), rest, out @ [sym_prompt p (syms k sr)])"
    by (cases "sv k sr v") auto
  from eq have 2: "\<not> fst (sv k sr v) \<longrightarrow>
              sym_loop sv p sr ([] # rest) k out =
              sym_loop sv p sr rest (snd (sv k sr v)) (out @ [sym_prompt p (syms k sr)])"
    by (cases "sv k sr v") auto
  have 3: "(\<exists>k' out'. sym_loop sv p sr ([] # rest) k out = Inr (k', rest, out')) \<longleftrightarrow>
              fst (sv k sr v)"
  proof
    assume "\<exists>k' out'. sym_loop sv p sr ([] # rest) k out = Inr (k', rest, out')"
    then obtain k' out' where r: "sym_loop sv p sr ([] # rest) k out = Inr (k', rest, out')"
      by blast
    show "fst (sv k sr v)"
    proof (rule ccontr)
      assume "\<not> fst (sv k sr v)"
      with 2 r have "sym_loop sv p sr rest (snd (sv k sr v)) (out @ [sym_prompt p (syms k sr)]) =
          Inr (k', rest, out')"
        by simp
      from sym_loop_consumes [OF this] show False by simp
    qed
  next
    assume "fst (sv k sr v)"
    with 1 show "\<exists>k' out'. sym_loop sv p sr ([] # rest) k out = Inr (k', rest, out')"
      by blast
  qed
  from 1 2 3 show ?thesis by blast
qed

theorem sym_loop_blank_input_witness:
  "str_value (syms sample_kconf 1) = ''y''
   \<and> fst (sample_set_value sample_kconf 1 (Tri 2))
   \<and> sym_loop sample_set_value ''BOOL_SYM prompt'' 1 [[], ''n''] sample_kconf [] =
       Inr (snd (sample_set_value sample_kconf 1 (Tri 2)), [''n''],
            [sym_prompt ''BOOL_SYM prompt'' (syms sample_kconf 1)])
   \<and> str_value (syms sample_kconf 5) = []
   \<and> fst (sample_set_value sample_kconf 5 (Str ''0x'')) = False
   \<and> sym_loop sample_set_value ''HEX_SYM prompt'' 5 [[], ''n''] sample_kconf [] =
       sym_loop sample_set_value ''HEX_SYM prompt'' 5 [''n'']
         (snd (sample_set_value sample_kconf 5 (Str ''0x'')))
         [sym_prompt ''HEX_SYM prompt'' (syms sample_kconf 5)]"
proof -
  have c1: "(if type (syms sample_kconf 1) \<in> {BOOL, TRISTATE}
            then map_option Tri (STR_TO_TRI (str_value (syms sample_kconf 1)))
            else Some (Str (if type (syms sample_kconf 1) = HEX
                                \<and> \<not> startswith_0x (str_value (syms sample_kconf 1))
                            then ''0x'' @ str_value (syms sample_kconf 1)
                            else str_value (syms sample_kconf 1)))) = Some (Tri 2)"
    by (simp add: sample_kconf_def sample_syms_def STR_TO_TRI_def)
  have c5: "(if type (syms sample_kconf 5) \<in> {BOOL, TRISTATE}
            then map_option Tri (STR_TO_TRI (str_value (syms sample_kconf 5)))
            else Some (Str (if type (syms sample_kconf 5) = HEX
                                \<and> \<not> startswith_0x (str_value (syms sample_kconf 5))
                            then ''0x'' @ str_value (syms sample_kconf 5)
                            else str_value (syms sample_kconf 5)))) = Some (Str ''0x'')"
    by (simp add: sample_kconf_def sample_syms_def startswith_0x_def)
  have s1: "str_value (syms sample_kconf 1) = ''y''" and s5: "str_value (syms sample_kconf 5) = []"
    by (simp_all add: sample_kconf_def sample_syms_def)
  have a1: "fst (sample_set_value sample_kconf 1 (Tri 2))"
    by (simp add: sample_set_value_def sample_kconf_def sample_syms_def)
  have a5: "fst (sample_set_value sample_kconf 5 (Str ''0x'')) = False"
    by (simp add: sample_set_value_def sample_kconf_def sample_syms_def startswith_0x_def)
  from sym_loop_blank_input [OF c1, of sample_set_value "''BOOL_SYM prompt''" "[''n'']" "[]"] a1
  have 1: "sym_loop sample_set_value ''BOOL_SYM prompt'' 1 [[], ''n''] sample_kconf [] =
       Inr (snd (sample_set_value sample_kconf 1 (Tri 2)), [''n''],
            [sym_prompt ''BOOL_SYM prompt'' (syms sample_kconf 1)])"
    by simp
  from sym_loop_blank_input [OF c5, of sample_set_value "''HEX_SYM prompt''" "[''n'']" "[]"] a5
  have 2: "sym_loop sample_set_value ''HEX_SYM prompt'' 5 [[], ''n''] sample_kconf [] =
       sym_loop sample_set_value ''HEX_SYM prompt'' 5 [''n'']
         (snd (sample_set_value sample_kconf 5 (Str ''0x'')))
         [sym_prompt ''HEX_SYM prompt'' (syms sample_kconf 5)]"
    by simp
  from s1 a1 1 s5 a5 2 show ?thesis by (simp only: simp_thms)
qed

text \<open>
  Claim C7 as stated fails: in the sample, \<^verbatim>\<open>INT_SYM\<close> and \<^verbatim>\<open>HEX_SYM\<close> have no
  default, their current value is the empty string, and the setter refuses the empty
  string for the one and \<^verbatim>\<open>0x\<close> for the other. A blank line at the prompt of
  \<^verbatim>\<open>INT_SYM\<close> is followed by a second prompt, and a blank line as the whole input for
  \<^verbatim>\<open>HEX_SYM\<close> by a prompt that meets the end of the input.
\<close>

theorem blank_default_rejected:
  "type (syms sample_kconf 4) = INT'
   \<and> str_value (syms sample_kconf 4) = []
   \<and> fst (sample_set_value sample_kconf 4 (Str [])) = False
   \<and> do_oldconfig_for_node sample_set_value node_INT_SYM [[], ''123''] sample_kconf [] =
       Inr (snd (sample_set_value sample_kconf 4 (Str ''123'')), [],
            [sym_prompt ''INT_SYM prompt'' (syms sample_kconf 4),
             sym_prompt ''INT_SYM prompt'' (syms sample_kconf 4)])
   \<and> do_oldconfig_for_node sample_set_value node_HEX_SYM [[]] sample_kconf [] = Inl EOFError"
  by (simp add: do_oldconfig_for_node_def oldconfig_symbol_def node_INT_SYM_def node_HEX_SYM_def
      sample_set_value_def sample_kconf_def sample_syms_def py_int_def strip_def is_space_def
      digit_val_def startswith_0x_def Let_def)

section \<open>Items that are already set\<close>




section \<open>Errors and retries\<close>




end
